theory Spec2Isabelle
  imports Main "HOL-Library.Sublist"
begin

section \<open>The runtime the handlers run in\<close>

text \<open>
  Go strings and byte slices are byte sequences: both are \<^typ>\<open>string\<close>.  A Go
  \<^verbatim>\<open>error\<close> is \<open>None\<close> for \<^verbatim>\<open>nil\<close> and \<open>Some msg\<close> otherwise.  Go's
  \<^verbatim>\<open>int\<close> is \<^typ>\<open>int\<close>: the program only stores lengths and status codes in it and
  never computes with them.
\<close>

type_synonym error = "string option"

type_synonym header = "string \<rightharpoonup> string list"

definition newline :: char where
  "newline = CHR 0x0A"

text \<open>
  \<^verbatim>\<open>http.ResponseWriter\<close> is an interface.  A value of it is a method table over some
  hidden state \<open>'w\<close>; every method may change that state.  The handlers are written
  against the interface, so the model takes the table as a parameter and threads the
  state.
\<close>

record 'w ResponseWriter =
  Header :: "'w \<Rightarrow> header \<times> 'w"
  Write :: "string \<Rightarrow> 'w \<Rightarrow> (int \<times> error) \<times> 'w"
  WriteHeader :: "int \<Rightarrow> 'w \<Rightarrow> 'w"

text \<open>The fields of \<^verbatim>\<open>*http.Request\<close> that the program reads.\<close>

record Request =
  Host :: string
  RemoteAddr :: string
  Method :: string
  URL_Path :: string
  Proto :: string
  UserAgent :: string

text \<open>
  A reading of \<^verbatim>\<open>time.Now()\<close>: the wall clock and the monotonic clock, both in
  nanoseconds.
\<close>

record Time =
  wallNs :: int
  monoNs :: int

text \<open>
  The process state outside the response writer: the environment variables, what has
  been written to the two standard streams (one entry per \<^verbatim>\<open>Write\<close> call), and the
  clock, as the sequence of readings that successive \<^verbatim>\<open>time.Now()\<close> calls return.
\<close>

record world =
  environ :: "string \<rightharpoonup> string"
  stdout :: "string list"
  stderr :: "string list"
  readings :: "nat \<Rightarrow> Time"
  reads :: nat

datatype stream = Stdout | Stderr

definition LookupEnv :: "string \<Rightarrow> world \<Rightarrow> string option" where
  "LookupEnv k w = environ w k"

definition time_Now :: "world \<Rightarrow> Time \<times> world" where
  "time_Now w = (readings w (reads w), w\<lparr>reads := Suc (reads w)\<rparr>)"

definition maxDuration :: int where
  "maxDuration = 2 ^ 63 - 1"

definition minDuration :: int where
  "minDuration = - (2 ^ 63)"

text \<open>
  \<^verbatim>\<open>end.Sub(start)\<close> for two readings of \<^verbatim>\<open>time.Now()\<close>: the difference of the
  monotonic readings, saturating at the bounds of \<^verbatim>\<open>int64\<close>.
\<close>

definition time_Sub :: "Time \<Rightarrow> Time \<Rightarrow> int" where
  "time_Sub t u =
     (let d = monoNs t - monoNs u
      in if d > maxDuration then maxDuration
         else if d < minDuration then minDuration
         else d)"

definition file_Write :: "stream \<Rightarrow> string \<Rightarrow> world \<Rightarrow> world" where
  "file_Write out b w =
     (case out of
        Stdout \<Rightarrow> w\<lparr>stdout := stdout w @ [b]\<rparr>
      | Stderr \<Rightarrow> w\<lparr>stderr := stderr w @ [b]\<rparr>)"

text \<open>
  \<^verbatim>\<open>fmt.Fprintln(w, s)\<close> with one string operand formats \<open>s\<close> and a newline into a
  buffer and makes one \<^verbatim>\<open>Write\<close> call with it.
\<close>

definition Fprintln :: "'w ResponseWriter \<Rightarrow> string \<Rightarrow> 'w \<Rightarrow> (int \<times> error) \<times> 'w" where
  "Fprintln rw s u = Write rw (s @ [newline]) u"

definition file_Fprintln :: "stream \<Rightarrow> string \<Rightarrow> world \<Rightarrow> world" where
  "file_Fprintln out s w = file_Write out (s @ [newline]) w"

text \<open>The verb \<^verbatim>\<open>%d\<close> on an \<^verbatim>\<open>int\<close>: decimal digits, with a minus sign when negative.\<close>

definition digit :: "nat \<Rightarrow> char" where
  "digit n = ''0123456789'' ! n"

function digits :: "nat \<Rightarrow> string" where
  "digits n = (if n < 10 then [digit n] else digits (n div 10) @ [digit (n mod 10)])"
  by pat_completeness auto
termination
  by (relation "measure id") auto

declare digits.simps [simp del]

definition fmt_d :: "int \<Rightarrow> string" where
  "fmt_d i = (if i < 0 then CHR ''-'' # digits (nat (- i)) else digits (nat i))"

section \<open>The handlers\<close>

datatype outcome = Returned | Panicked string

text \<open>
  An \<^verbatim>\<open>http.HandlerFunc\<close>: it gets the response writer (method table and state), the
  request and the process state, and either returns or panics.
\<close>

type_synonym 'w handler =
  "'w ResponseWriter \<Rightarrow> Request \<Rightarrow> 'w \<Rightarrow> world \<Rightarrow> outcome \<times> 'w \<times> world"

definition getEnvStrOrDefault :: "string \<Rightarrow> string \<Rightarrow> world \<Rightarrow> string" where
  "getEnvStrOrDefault k d w = (case LookupEnv k w of Some v \<Rightarrow> v | None \<Rightarrow> d)"

text \<open>\<^verbatim>\<open>fmt.Sprintf("failed resolving env var '%s'", v)\<close>\<close>

definition failedResolving :: "string \<Rightarrow> string" where
  "failedResolving v = ''failed resolving env var '' @ [CHR 0x27] @ v @ [CHR 0x27]"

definition httpEcho :: "string \<Rightarrow> string \<Rightarrow> 'w handler" where
  "httpEcho v kind rw r u w =
     (if kind = ''text'' then (Returned, snd (Fprintln rw v u), w)
      else if kind = ''env'' then
        (case LookupEnv v w of
           None \<Rightarrow> (Returned, snd (Fprintln rw (failedResolving v) u), w)
         | Some resolvedV \<Rightarrow> (Returned, snd (Fprintln rw resolvedV u), w))
      else (Panicked ''something went wrong, not cool!'', u, w))"

definition healthBody :: string where
  "healthBody = [CHR ''{'', CHR 0x22] @ ''status'' @ [CHR 0x22, CHR '':'', CHR 0x22] @ ''ok''
     @ [CHR 0x22, CHR ''}'']"

definition httpHealth :: "'w handler" where
  "httpHealth rw r u w = (Returned, snd (Fprintln rw healthBody u), w)"

definition withAppHeaders :: "'w handler \<Rightarrow> 'w handler" where
  "withAppHeaders h rw r u w = h rw r u w"

section \<open>The response recorder\<close>

record 'w metaResponseWriter =
  writer :: 'w
  status :: int
  length' :: int

definition StatusOK :: int where
  "StatusOK = 200"

definition mrw_Header :: "'w ResponseWriter \<Rightarrow> 'w metaResponseWriter \<Rightarrow> header \<times> 'w metaResponseWriter" where
  "mrw_Header rw m = (let (h, u) = Header rw (writer m) in (h, m\<lparr>writer := u\<rparr>))"

definition mrw_WriteHeader :: "'w ResponseWriter \<Rightarrow> int \<Rightarrow> 'w metaResponseWriter \<Rightarrow> 'w metaResponseWriter" where
  "mrw_WriteHeader rw s m =
     (let m1 = m\<lparr>status := s\<rparr>
      in m1\<lparr>writer := WriteHeader rw s (writer m1)\<rparr>)"

definition mrw_Write :: "'w ResponseWriter \<Rightarrow> string \<Rightarrow> 'w metaResponseWriter \<Rightarrow> (int \<times> error) \<times> 'w metaResponseWriter" where
  "mrw_Write rw b m =
     (let m1 = (if status m = 0 then m\<lparr>status := StatusOK\<rparr> else m);
          m2 = m1\<lparr>length' := int (length b)\<rparr>;
          (res, u) = Write rw b (writer m2)
      in (res, m2\<lparr>writer := u\<rparr>))"

text \<open>
  \<^verbatim>\<open>&mrw\<close> seen as an \<^verbatim>\<open>http.ResponseWriter\<close>: the method table of the recorder
  over the method table of the writer it wraps.
\<close>

definition recorder :: "'w ResponseWriter \<Rightarrow> 'w metaResponseWriter ResponseWriter" where
  "recorder rw = \<lparr>Header = mrw_Header rw, Write = mrw_Write rw, WriteHeader = mrw_WriteHeader rw\<rparr>"

section \<open>The access logger\<close>

text \<open>
  \<^verbatim>\<open>time.Time.Format\<close> and \<^verbatim>\<open>time.Duration.String\<close> belong to Go's standard library;
  the logger takes them as parameters.
\<close>

record formatters =
  time_Format :: "string \<Rightarrow> Time \<Rightarrow> string"
  duration_String :: "int \<Rightarrow> string"

definition httpLogDateFormat :: string where
  "httpLogDateFormat = ''2006/01/02 15:04:05''"

text \<open>
  The line that \<^verbatim>\<open>fmt.Fprintf(out, httpLogFormat, ...)\<close> builds from the format
  \<^verbatim>\<open>%v %s %s "%s %s %s" %d %d "%s" %v\n\<close>: the first operand is a string, the last a
  \<^verbatim>\<open>time.Duration\<close>, which \<^verbatim>\<open>%v\<close> prints with its \<^verbatim>\<open>String\<close> method.
  \<^verbatim>\<open>Fprintf\<close> hands the line to \<open>out\<close> in one \<^verbatim>\<open>Write\<close> call.
\<close>

definition httpLogFormat ::
  "formatters \<Rightarrow> string \<Rightarrow> string \<Rightarrow> string \<Rightarrow> string \<Rightarrow> string \<Rightarrow> string \<Rightarrow> int \<Rightarrow> int \<Rightarrow> string \<Rightarrow> int \<Rightarrow> string" where
  "httpLogFormat f date host remote method path proto st len agent dur =
     date @ '' '' @ host @ '' '' @ remote @ '' '' @ [CHR 0x22] @ method @ '' '' @ path @ '' ''
       @ proto @ [CHR 0x22] @ '' '' @ fmt_d st @ '' '' @ fmt_d len @ '' '' @ [CHR 0x22] @ agent
       @ [CHR 0x22] @ '' '' @ duration_String f dur @ [newline]"

text \<open>The deferred function of \<^verbatim>\<open>httpLog\<close>, called with the start time.\<close>

definition httpLog_deferred ::
  "formatters \<Rightarrow> stream \<Rightarrow> Request \<Rightarrow> 'w metaResponseWriter \<Rightarrow> Time \<Rightarrow> world \<Rightarrow> world" where
  "httpLog_deferred f out r mrw start w =
     (let st = status mrw;
          len = length' mrw;
          (end, w1) = time_Now w;
          dur = time_Sub end start
      in file_Write out
           (httpLogFormat f (time_Format f httpLogDateFormat end)
              (Host r) (RemoteAddr r) (Method r) (URL_Path r) (Proto r)
              st len (UserAgent r) dur) w1)"

text \<open>
  \<^verbatim>\<open>httpLog\<close>: a zero-valued recorder around \<open>w\<close>, the start time read when the
  \<^verbatim>\<open>defer\<close> statement runs, the inner handler on the recorder, then the deferred
  function, whether the inner handler returned or panicked.
\<close>

definition httpLog ::
  "formatters \<Rightarrow> stream \<Rightarrow> 'w metaResponseWriter handler \<Rightarrow> 'w handler" where
  "httpLog f out h rw r u w =
     (let mrw = \<lparr>writer = u, status = 0, length' = 0\<rparr>;
          (start, w1) = time_Now w;
          (res, mrw', w2) = h (recorder rw) r mrw w1;
          w3 = httpLog_deferred f out r mrw' start w2
      in (res, writer mrw', w3))"

section \<open>Startup and routing\<close>

text \<open>
  \<^verbatim>\<open>flag.Parse()\<close> is Go's standard library; \<^verbatim>\<open>main\<close> starts from the parsed flags
  and the remaining positional arguments.
\<close>

record flags =
  listenFlag :: string
  textFlag :: string
  envFlag :: string
  args :: "string list"

text \<open>
  How \<^verbatim>\<open>main\<close> leaves its first part: \<^verbatim>\<open>os.Exit\<close> with a code, or on to building
  the routes and listening on the address, with \<^verbatim>\<open>finalFlag\<close> and \<^verbatim>\<open>finalKind\<close>.
\<close>

datatype startup = Exit int | Listen string string string

definition main_startup :: "flags \<Rightarrow> world \<Rightarrow> startup \<times> world" where
  "main_startup fl w =
     (if textFlag fl = [] \<and> envFlag fl = [] then
        (Exit 127, file_Fprintln Stderr ''Missing -text or -env option!'' w)
      else if length (args fl) > 0 then
        (Exit 127, file_Fprintln Stderr ''Too many arguments!'' w)
      else if textFlag fl \<noteq> [] then
        (Listen (listenFlag fl) (textFlag fl) ''text'', w)
      else
        (Listen (listenFlag fl) (envFlag fl) ''env'', w))"






section \<open>A response writer that keeps what it is given\<close>

text \<open>
  The response writer that \<^verbatim>\<open>net/http\<close> hands to a handler is Go's standard library.
  This one follows the documented contract of \<^verbatim>\<open>http.ResponseWriter\<close>: the first
  \<^verbatim>\<open>WriteHeader\<close> fixes the status code, a \<^verbatim>\<open>Write\<close> before any \<^verbatim>\<open>WriteHeader\<close>
  implies \<^verbatim>\<open>WriteHeader(http.StatusOK)\<close>, and the body is everything written.  The
  theorems below hold for every response writer; this one is the concrete instance.
\<close>

record response =
  code :: int
  wroteHeader :: bool
  body :: string
  headers :: header

definition response_Header :: "response \<Rightarrow> header \<times> response" where
  "response_Header u = (headers u, u)"

definition response_WriteHeader :: "int \<Rightarrow> response \<Rightarrow> response" where
  "response_WriteHeader s u = (if wroteHeader u then u else u\<lparr>code := s, wroteHeader := True\<rparr>)"

definition response_Write :: "string \<Rightarrow> response \<Rightarrow> (int \<times> error) \<times> response" where
  "response_Write b u =
     (let u1 = (if wroteHeader u then u else response_WriteHeader StatusOK u)
      in ((int (length b), None), u1\<lparr>body := body u1 @ b\<rparr>))"

definition netResponse :: "response ResponseWriter" where
  "netResponse =
     \<lparr>Header = response_Header, Write = response_Write, WriteHeader = response_WriteHeader\<rparr>"

definition freshResponse :: response where
  "freshResponse = \<lparr>code = 0, wroteHeader = False, body = [], headers = Map.empty\<rparr>"

text \<open>
  Concrete inputs for the examples: stand-ins for the two library formatters, a process
  state with one environment variable and a clock that advances 5 ns per reading, and a
  request.
\<close>

definition exampleFormatters :: formatters where
  "exampleFormatters =
     \<lparr>time_Format = (\<lambda>layout t. fmt_d (wallNs t)),
      duration_String = (\<lambda>d. fmt_d d @ ''ns'')\<rparr>"

definition exampleWorld :: world where
  "exampleWorld =
     \<lparr>environ = [''GREETING'' \<mapsto> ''hello''], stdout = [], stderr = [],
      readings = (\<lambda>n. \<lparr>wallNs = 1000 + int n, monoNs = 5 * int n\<rparr>), reads = 0\<rparr>"

definition exampleRequest :: "string \<Rightarrow> Request" where
  "exampleRequest path =
     \<lparr>Host = ''localhost:5678'', RemoteAddr = ''127.0.0.1:4000'', Method = ''GET'',
      URL_Path = path, Proto = ''HTTP/1.1'', UserAgent = ''curl''\<rparr>"


section \<open>Helper facts\<close>

lemma Fprintln_recorder:
  "Fprintln (recorder rw) s \<lparr>writer = u, status = 0, length' = 0\<rparr> =
     (fst (Write rw (s @ [newline]) u),
      \<lparr>writer = snd (Write rw (s @ [newline]) u), status = 200, length' = int (length s) + 1\<rparr>)"
  by (simp add: Fprintln_def recorder_def mrw_Write_def StatusOK_def Let_def split: prod.split)

lemma Fprintln_netResponse:
  "snd (Fprintln netResponse s freshResponse) =
     \<lparr>code = 200, wroteHeader = True, body = s @ [newline], headers = Map.empty\<rparr>"
  by (simp add: Fprintln_def netResponse_def response_Write_def response_WriteHeader_def
      freshResponse_def StatusOK_def Let_def)

lemma Write_netResponse:
  "snd (Write netResponse b freshResponse) =
     \<lparr>code = 200, wroteHeader = True, body = b, headers = Map.empty\<rparr>"
  by (simp add: netResponse_def response_Write_def response_WriteHeader_def
      freshResponse_def StatusOK_def Let_def)

lemma httpLog_run:
  assumes "h (recorder rw) r \<lparr>writer = u, status = 0, length' = 0\<rparr> (snd (time_Now w)) = (res, m, w2)"
  shows "httpLog f out h rw r u w =
           (res, writer m, httpLog_deferred f out r m (fst (time_Now w)) w2)"
  using assms by (cases "time_Now w") (simp add: httpLog_def Let_def)

lemma single_write_under_log:
  assumes "\<And>rw' u' w'. h rw' r u' w' = (Returned, snd (Fprintln rw' s u'), w')"
  shows "httpLog f out (withAppHeaders h) rw r u w =
     (Returned, snd (Write rw (s @ [newline]) u),
      httpLog_deferred f out r
        \<lparr>writer = snd (Write rw (s @ [newline]) u), status = 200, length' = int (length s) + 1\<rparr>
        (fst (time_Now w)) (snd (time_Now w)))"
proof -
  have "withAppHeaders h (recorder rw) r \<lparr>writer = u, status = 0, length' = 0\<rparr> (snd (time_Now w))
        = (Returned,
           \<lparr>writer = snd (Write rw (s @ [newline]) u), status = 200,
            length' = int (length s) + 1\<rparr>, snd (time_Now w))"
    by (simp add: withAppHeaders_def assms Fprintln_recorder)
  from httpLog_run [where h = "withAppHeaders h" and rw = rw and r = r and u = u and w = w, OF this]
  show ?thesis by simp
qed

lemma sublist_failedResolving: "sublist N (failedResolving N)"
  unfolding failedResolving_def by (metis append.assoc sublist_appendI)

lemma main_startup_kind:
  "main_startup fl w = (Listen a v k, w') \<Longrightarrow> k = ''text'' \<or> k = ''env''"
  by (auto simp: main_startup_def split: if_splits)












lemma body_freshResponse: "body freshResponse = []"
  by (simp add: freshResponse_def)

lemma echo_recorded_length:
  "withAppHeaders (httpEcho v kind) (recorder netResponse) r
      \<lparr>writer = freshResponse, status = 0, length' = 0\<rparr> w1 = (res, m, w2) \<Longrightarrow>
   length' m = int (length (body (writer m)))"
  by (auto simp: withAppHeaders_def httpEcho_def Fprintln_recorder Write_netResponse
      body_freshResponse split: if_splits option.splits)

lemma health_recorded_length:
  "withAppHeaders httpHealth (recorder netResponse) r
      \<lparr>writer = freshResponse, status = 0, length' = 0\<rparr> w1 = (res, m, w2) \<Longrightarrow>
   length' m = int (length (body (writer m)))"
  by (auto simp: withAppHeaders_def httpHealth_def Fprintln_recorder Write_netResponse)

lemma echo_single_write:
  "withAppHeaders (httpEcho v kind) (recorder rw) r
      \<lparr>writer = u, status = 0, length' = 0\<rparr> w1 = (res, m, w2) \<Longrightarrow>
   (\<exists>b. res = Returned \<and> writer m = snd (Write rw b u) \<and> length' m = int (length b))
   \<or> ((\<exists>msg. res = Panicked msg) \<and> writer m = u \<and> length' m = 0)"
  by (auto simp: withAppHeaders_def httpEcho_def Fprintln_recorder
      split: if_splits option.splits)

lemma health_single_write:
  "withAppHeaders httpHealth (recorder rw) r
      \<lparr>writer = u, status = 0, length' = 0\<rparr> w1 =
     (Returned,
      \<lparr>writer = snd (Write rw (healthBody @ [newline]) u), status = 200,
       length' = int (length (healthBody @ [newline]))\<rparr>, w1)"
  by (simp add: withAppHeaders_def httpHealth_def Fprintln_recorder)

section \<open>Properties of the echo handler\<close>

text \<open>
  C1: for every literal value \<open>V\<close> (kind \<^verbatim>\<open>text\<close>) and every request, the echo handler
  makes exactly one write to the response, of \<open>V\<close> followed by a newline, and returns;
  under the access logger, as \<^verbatim>\<open>main\<close> registers it, the status recorded for the
  request is 200; on a fresh response the status code is 200 and the body is \<open>V\<close> and a
  newline.
\<close>

theorem httpEcho_text:
  "httpEcho V ''text'' rw r u w = (Returned, snd (Write rw (V @ [newline]) u), w)
   \<and> httpLog f out (withAppHeaders (httpEcho V ''text'')) rw r u w =
       (Returned, snd (Write rw (V @ [newline]) u),
        httpLog_deferred f out r
          \<lparr>writer = snd (Write rw (V @ [newline]) u), status = 200,
           length' = int (length V) + 1\<rparr>
          (fst (time_Now w)) (snd (time_Now w)))
   \<and> httpEcho V ''text'' netResponse r freshResponse w =
       (Returned, \<lparr>code = 200, wroteHeader = True, body = V @ [newline], headers = Map.empty\<rparr>, w)"
proof (intro conjI)
  show "httpEcho V ''text'' rw r u w = (Returned, snd (Write rw (V @ [newline]) u), w)"
    by (simp add: httpEcho_def Fprintln_def)
  show "httpLog f out (withAppHeaders (httpEcho V ''text'')) rw r u w =
       (Returned, snd (Write rw (V @ [newline]) u),
        httpLog_deferred f out r
          \<lparr>writer = snd (Write rw (V @ [newline]) u), status = 200,
           length' = int (length V) + 1\<rparr>
          (fst (time_Now w)) (snd (time_Now w)))"
    by (rule single_write_under_log) (simp add: httpEcho_def)
  show "httpEcho V ''text'' netResponse r freshResponse w =
       (Returned, \<lparr>code = 200, wroteHeader = True, body = V @ [newline], headers = Map.empty\<rparr>, w)"
    by (simp add: httpEcho_def Fprintln_netResponse)
qed

text \<open>
  C2: for every environment-variable name \<open>N\<close> (kind \<^verbatim>\<open>env\<close>) the echo handler looks
  \<open>N\<close> up in the environment of the process state it is called with, that is at request
  time.  If \<open>N\<close> is set to \<open>V\<close> it writes \<open>V\<close> and a newline; if \<open>N\<close> is unset it writes
  the message \<^verbatim>\<open>failed resolving env var 'N'\<close>, which contains \<open>N\<close>, and a newline.  In
  both cases it returns, the status recorded under the access logger is 200, and on a
  fresh response the status code is 200.
\<close>

theorem httpEcho_env:
  "(LookupEnv N w = Some V \<longrightarrow>
      httpEcho N ''env'' rw r u w = (Returned, snd (Write rw (V @ [newline]) u), w)
      \<and> httpLog f out (withAppHeaders (httpEcho N ''env'')) rw r u w =
          (Returned, snd (Write rw (V @ [newline]) u),
           httpLog_deferred f out r
             \<lparr>writer = snd (Write rw (V @ [newline]) u), status = 200,
              length' = int (length V) + 1\<rparr>
             (fst (time_Now w)) (snd (time_Now w)))
      \<and> httpEcho N ''env'' netResponse r freshResponse w =
          (Returned,
           \<lparr>code = 200, wroteHeader = True, body = V @ [newline], headers = Map.empty\<rparr>, w))
   \<and> (LookupEnv N w = None \<longrightarrow>
      sublist N (failedResolving N)
      \<and> httpEcho N ''env'' rw r u w =
          (Returned, snd (Write rw (failedResolving N @ [newline]) u), w)
      \<and> httpLog f out (withAppHeaders (httpEcho N ''env'')) rw r u w =
          (Returned, snd (Write rw (failedResolving N @ [newline]) u),
           httpLog_deferred f out r
             \<lparr>writer = snd (Write rw (failedResolving N @ [newline]) u), status = 200,
              length' = int (length (failedResolving N)) + 1\<rparr>
             (fst (time_Now w)) (snd (time_Now w)))
      \<and> httpEcho N ''env'' netResponse r freshResponse w =
          (Returned,
           \<lparr>code = 200, wroteHeader = True, body = failedResolving N @ [newline],
            headers = Map.empty\<rparr>, w))"
proof (intro conjI impI)
  assume set: "LookupEnv N w = Some V"
  show "httpEcho N ''env'' rw r u w = (Returned, snd (Write rw (V @ [newline]) u), w)"
    using set by (simp add: httpEcho_def Fprintln_def)
  have "withAppHeaders (httpEcho N ''env'') (recorder rw) r
          \<lparr>writer = u, status = 0, length' = 0\<rparr> (snd (time_Now w)) =
        (Returned,
         \<lparr>writer = snd (Write rw (V @ [newline]) u), status = 200,
          length' = int (length V) + 1\<rparr>, snd (time_Now w))"
    using set
    by (simp add: withAppHeaders_def httpEcho_def LookupEnv_def time_Now_def Fprintln_recorder)
  from httpLog_run [where h = "withAppHeaders (httpEcho N ''env'')" and rw = rw and r = r
      and u = u and w = w, OF this]
  show "httpLog f out (withAppHeaders (httpEcho N ''env'')) rw r u w =
          (Returned, snd (Write rw (V @ [newline]) u),
           httpLog_deferred f out r
             \<lparr>writer = snd (Write rw (V @ [newline]) u), status = 200,
              length' = int (length V) + 1\<rparr>
             (fst (time_Now w)) (snd (time_Now w)))"
    by simp
  show "httpEcho N ''env'' netResponse r freshResponse w =
          (Returned,
           \<lparr>code = 200, wroteHeader = True, body = V @ [newline], headers = Map.empty\<rparr>, w)"
    using set by (simp add: httpEcho_def Fprintln_netResponse)
next
  assume unset: "LookupEnv N w = None"
  show "sublist N (failedResolving N)"
    by (rule sublist_failedResolving)
  show "httpEcho N ''env'' rw r u w =
          (Returned, snd (Write rw (failedResolving N @ [newline]) u), w)"
    using unset by (simp add: httpEcho_def Fprintln_def)
  have "withAppHeaders (httpEcho N ''env'') (recorder rw) r
          \<lparr>writer = u, status = 0, length' = 0\<rparr> (snd (time_Now w)) =
        (Returned,
         \<lparr>writer = snd (Write rw (failedResolving N @ [newline]) u), status = 200,
          length' = int (length (failedResolving N)) + 1\<rparr>, snd (time_Now w))"
    using unset
    by (simp add: withAppHeaders_def httpEcho_def LookupEnv_def time_Now_def Fprintln_recorder)
  from httpLog_run [where h = "withAppHeaders (httpEcho N ''env'')" and rw = rw and r = r
      and u = u and w = w, OF this]
  show "httpLog f out (withAppHeaders (httpEcho N ''env'')) rw r u w =
          (Returned, snd (Write rw (failedResolving N @ [newline]) u),
           httpLog_deferred f out r
             \<lparr>writer = snd (Write rw (failedResolving N @ [newline]) u), status = 200,
              length' = int (length (failedResolving N)) + 1\<rparr>
             (fst (time_Now w)) (snd (time_Now w)))"
    by simp
  show "httpEcho N ''env'' netResponse r freshResponse w =
          (Returned,
           \<lparr>code = 200, wroteHeader = True, body = failedResolving N @ [newline],
            headers = Map.empty\<rparr>, w)"
    using unset by (simp add: httpEcho_def Fprintln_netResponse)
qed

theorem httpEcho_env_witness:
  "LookupEnv ''GREETING'' exampleWorld = Some ''hello''
   \<and> httpEcho ''GREETING'' ''env'' netResponse (exampleRequest ''/'') freshResponse exampleWorld =
     (Returned,
      \<lparr>code = 200, wroteHeader = True, body = ''hello'' @ [newline], headers = Map.empty\<rparr>,
      exampleWorld)
   \<and> LookupEnv ''HOME'' exampleWorld = None
   \<and> httpEcho ''HOME'' ''env'' netResponse (exampleRequest ''/'') freshResponse exampleWorld =
     (Returned,
      \<lparr>code = 200, wroteHeader = True,
       body = ''failed resolving env var '' @ [CHR 0x27] @ ''HOME'' @ [CHR 0x27] @ [newline],
       headers = Map.empty\<rparr>,
      exampleWorld)"
proof -
  have set: "LookupEnv ''GREETING'' exampleWorld = Some ''hello''"
    by (simp add: LookupEnv_def exampleWorld_def)
  have unset: "LookupEnv ''HOME'' exampleWorld = None"
    by (simp add: LookupEnv_def exampleWorld_def)
  note a = httpEcho_env [of "''GREETING''" exampleWorld "''hello''" netResponse
      "exampleRequest ''/''" freshResponse exampleFormatters Stdout,
      THEN conjunct1, rule_format, OF set, THEN conjunct2, THEN conjunct2]
  note b = httpEcho_env [of "''HOME''" exampleWorld "''hello''" netResponse
      "exampleRequest ''/''" freshResponse exampleFormatters Stdout,
      THEN conjunct2, rule_format, OF unset, THEN conjunct2, THEN conjunct2, THEN conjunct2]
  show ?thesis
    using set unset a b by (simp add: failedResolving_def)
qed

text \<open>
  C8: for every kind other than \<^verbatim>\<open>text\<close> and \<^verbatim>\<open>env\<close> the echo handler panics and
  leaves the response writer and the process state untouched; for the kinds \<^verbatim>\<open>text\<close>
  and \<^verbatim>\<open>env\<close> it returns, and these are the only kinds \<^verbatim>\<open>main\<close> constructs it
  with.
\<close>

theorem httpEcho_unknown_kind:
  "(kind \<noteq> ''text'' \<and> kind \<noteq> ''env'' \<longrightarrow>
      httpEcho v kind rw r u w = (Panicked ''something went wrong, not cool!'', u, w))
   \<and> (kind = ''text'' \<or> kind = ''env'' \<longrightarrow> fst (httpEcho v kind rw r u w) = Returned)
   \<and> (main_startup fl w0 = (Listen a v k, w1) \<longrightarrow>
        fst (httpEcho v k rw r u w) = Returned)"
proof (intro conjI impI)
  assume "kind \<noteq> ''text'' \<and> kind \<noteq> ''env''"
  then show "httpEcho v kind rw r u w = (Panicked ''something went wrong, not cool!'', u, w)"
    by (simp add: httpEcho_def)
next
  assume "kind = ''text'' \<or> kind = ''env''"
  then show "fst (httpEcho v kind rw r u w) = Returned"
    by (auto simp: httpEcho_def split: option.split)
next
  assume "main_startup fl w0 = (Listen a v k, w1)"
  then have "k = ''text'' \<or> k = ''env''"
    by (rule main_startup_kind)
  then show "fst (httpEcho v k rw r u w) = Returned"
    by (auto simp: httpEcho_def split: option.split)
qed

theorem httpEcho_unknown_kind_witness:
  "httpEcho ''hi'' ''json'' netResponse (exampleRequest ''/'') freshResponse exampleWorld =
     (Panicked ''something went wrong, not cool!'', freshResponse, exampleWorld)
   \<and> fst (httpEcho ''hi'' ''text'' netResponse (exampleRequest ''/'') freshResponse exampleWorld)
       = Returned
   \<and> main_startup \<lparr>listenFlag = '':5678'', textFlag = [], envFlag = ''GREETING'', args = []\<rparr>
       exampleWorld = (Listen '':5678'' ''GREETING'' ''env'', exampleWorld)
   \<and> fst (httpEcho ''GREETING'' ''env'' netResponse (exampleRequest ''/'') freshResponse
       exampleWorld) = Returned"
proof -
  have st: "main_startup \<lparr>listenFlag = '':5678'', textFlag = [], envFlag = ''GREETING'', args = []\<rparr>
       exampleWorld = (Listen '':5678'' ''GREETING'' ''env'', exampleWorld)"
    by (simp add: main_startup_def)
  have k1: "''json'' \<noteq> ''text'' \<and> ''json'' \<noteq> ''env''"
    by simp
  have k2: "''text'' = ''text'' \<or> ''text'' = ''env''"
    by simp
  note t = httpEcho_unknown_kind [where rw = netResponse and r = "exampleRequest ''/''"
      and u = freshResponse and w = exampleWorld]
  note a = t [where kind = "''json''" and v = "''hi''", THEN conjunct1, rule_format, OF k1]
  note b = t [where kind = "''text''" and v = "''hi''", THEN conjunct2, THEN conjunct1,
      rule_format, OF k2]
  note c = t [THEN conjunct2, THEN conjunct2, rule_format, OF st]
  show ?thesis
    using a b c st by simp
qed

section \<open>Properties of the health handler\<close>



section \<open>Properties of the response recorder\<close>

text \<open>
  C4: for every byte sequence \<open>b\<close> and every recorder state, \<^verbatim>\<open>Write\<close> sets the
  recorded status to 200 if it is 0 and leaves it otherwise, sets the recorded length to
  the length of \<open>b\<close> whatever it was before, forwards exactly \<open>b\<close> to the wrapped writer
  and returns that writer's result unchanged.
\<close>

theorem mrw_Write_effect:
  "mrw_Write rw b m =
     (fst (Write rw b (writer m)),
      \<lparr>writer = snd (Write rw b (writer m)),
       status = (if status m = 0 then 200 else status m),
       length' = int (length b)\<rparr>)"
  by (cases m) (simp add: mrw_Write_def StatusOK_def Let_def split: prod.split)

text \<open>
  C10: \<^verbatim>\<open>Header\<close> on the recorder returns exactly what \<^verbatim>\<open>Header\<close> on the wrapped
  writer returns, and the recorded status and the recorded length stay as they were.
\<close>

theorem mrw_Header_frame:
  "fst (mrw_Header rw m) = fst (Header rw (writer m))
   \<and> writer (snd (mrw_Header rw m)) = snd (Header rw (writer m))
   \<and> status (snd (mrw_Header rw m)) = status m
   \<and> length' (snd (mrw_Header rw m)) = length' m"
  by (simp add: mrw_Header_def split: prod.split)

section \<open>Properties of the access logger\<close>




text \<open>
  C5: for every request that the echo handler (whatever its value and kind) or the health
  handler serves under the access logger, the length in the recorder that the deferred
  log call receives is the length of the one byte sequence the handler wrote to the
  response (and 0 when the echo handler panicked before writing); on a response whose
  body starts empty it equals the number of bytes in the body.  Echoing the literal
  \<^verbatim>\<open>hi\<close> records length 3, for \<^verbatim>\<open>hi\<close> and a newline.
\<close>

theorem recorded_length_is_body_length:
  "(case withAppHeaders (httpEcho v kind) (recorder rw) r
           \<lparr>writer = u, status = 0, length' = 0\<rparr> (snd (time_Now w)) of
      (res, m, w2) \<Rightarrow>
        httpLog f out (withAppHeaders (httpEcho v kind)) rw r u w =
          (res, writer m, httpLog_deferred f out r m (fst (time_Now w)) w2)
        \<and> ((\<exists>b. res = Returned \<and> writer m = snd (Write rw b u) \<and> length' m = int (length b))
            \<or> ((\<exists>msg. res = Panicked msg) \<and> writer m = u \<and> length' m = 0)))
   \<and> (case withAppHeaders httpHealth (recorder rw) r
           \<lparr>writer = u, status = 0, length' = 0\<rparr> (snd (time_Now w)) of
      (res, m, w2) \<Rightarrow>
        httpLog f out (withAppHeaders httpHealth) rw r u w =
          (res, writer m, httpLog_deferred f out r m (fst (time_Now w)) w2)
        \<and> res = Returned \<and> writer m = snd (Write rw (healthBody @ [newline]) u)
        \<and> length' m = int (length (healthBody @ [newline])))
   \<and> (case withAppHeaders (httpEcho v kind) (recorder netResponse) r
           \<lparr>writer = freshResponse, status = 0, length' = 0\<rparr> (snd (time_Now w)) of
      (res, m, w2) \<Rightarrow> length' m = int (length (body (writer m))))
   \<and> (case withAppHeaders httpHealth (recorder netResponse) r
           \<lparr>writer = freshResponse, status = 0, length' = 0\<rparr> (snd (time_Now w)) of
      (res, m, w2) \<Rightarrow> length' m = int (length (body (writer m))))
   \<and> httpLog exampleFormatters Stdout (withAppHeaders (httpEcho ''hi'' ''text'')) netResponse
        (exampleRequest ''/'') freshResponse exampleWorld =
       (Returned,
        \<lparr>code = 200, wroteHeader = True, body = ''hi'' @ [newline], headers = Map.empty\<rparr>,
        httpLog_deferred exampleFormatters Stdout (exampleRequest ''/'')
          \<lparr>writer = \<lparr>code = 200, wroteHeader = True, body = ''hi'' @ [newline],
                     headers = Map.empty\<rparr>,
           status = 200, length' = 3\<rparr>
          (fst (time_Now exampleWorld)) (snd (time_Now exampleWorld)))"
proof (intro conjI)
  obtain res m w2 where
    run: "withAppHeaders (httpEcho v kind) (recorder rw) r
           \<lparr>writer = u, status = 0, length' = 0\<rparr> (snd (time_Now w)) = (res, m, w2)"
    by (rule prod_cases3)
  from httpLog_run [where h = "withAppHeaders (httpEcho v kind)" and rw = rw and r = r
      and u = u and w = w, OF run]
    echo_single_write [OF run]
  show "case withAppHeaders (httpEcho v kind) (recorder rw) r
           \<lparr>writer = u, status = 0, length' = 0\<rparr> (snd (time_Now w)) of
      (res, m, w2) \<Rightarrow>
        httpLog f out (withAppHeaders (httpEcho v kind)) rw r u w =
          (res, writer m, httpLog_deferred f out r m (fst (time_Now w)) w2)
        \<and> ((\<exists>b. res = Returned \<and> writer m = snd (Write rw b u) \<and> length' m = int (length b))
            \<or> ((\<exists>msg. res = Panicked msg) \<and> writer m = u \<and> length' m = 0))"
    by (simp add: run)
next
  from httpLog_run [where h = "withAppHeaders httpHealth" and rw = rw and r = r
      and u = u and w = w, OF health_single_write]
  show "case withAppHeaders httpHealth (recorder rw) r
           \<lparr>writer = u, status = 0, length' = 0\<rparr> (snd (time_Now w)) of
      (res, m, w2) \<Rightarrow>
        httpLog f out (withAppHeaders httpHealth) rw r u w =
          (res, writer m, httpLog_deferred f out r m (fst (time_Now w)) w2)
        \<and> res = Returned \<and> writer m = snd (Write rw (healthBody @ [newline]) u)
        \<and> length' m = int (length (healthBody @ [newline]))"
    by (simp add: health_single_write)
next
  show "case withAppHeaders (httpEcho v kind) (recorder netResponse) r
           \<lparr>writer = freshResponse, status = 0, length' = 0\<rparr> (snd (time_Now w)) of
      (res, m, w2) \<Rightarrow> length' m = int (length (body (writer m)))"
    by (auto split: prod.split intro: echo_recorded_length)
next
  show "case withAppHeaders httpHealth (recorder netResponse) r
           \<lparr>writer = freshResponse, status = 0, length' = 0\<rparr> (snd (time_Now w)) of
      (res, m, w2) \<Rightarrow> length' m = int (length (body (writer m)))"
    by (auto split: prod.split intro: health_recorded_length)
next
  have "httpLog exampleFormatters Stdout (withAppHeaders (httpEcho ''hi'' ''text'')) netResponse
        (exampleRequest ''/'') freshResponse exampleWorld =
     (Returned, snd (Write netResponse (''hi'' @ [newline]) freshResponse),
      httpLog_deferred exampleFormatters Stdout (exampleRequest ''/'')
        \<lparr>writer = snd (Write netResponse (''hi'' @ [newline]) freshResponse), status = 200,
         length' = int (length ''hi'') + 1\<rparr>
        (fst (time_Now exampleWorld)) (snd (time_Now exampleWorld)))"
    by (rule single_write_under_log) (simp add: httpEcho_def)
  then show "httpLog exampleFormatters Stdout (withAppHeaders (httpEcho ''hi'' ''text''))
        netResponse (exampleRequest ''/'') freshResponse exampleWorld =
       (Returned,
        \<lparr>code = 200, wroteHeader = True, body = ''hi'' @ [newline], headers = Map.empty\<rparr>,
        httpLog_deferred exampleFormatters Stdout (exampleRequest ''/'')
          \<lparr>writer = \<lparr>code = 200, wroteHeader = True, body = ''hi'' @ [newline],
                     headers = Map.empty\<rparr>,
           status = 200, length' = 3\<rparr>
          (fst (time_Now exampleWorld)) (snd (time_Now exampleWorld)))"
    by (simp add: Write_netResponse)
qed

section \<open>Properties of startup validation\<close>

text \<open>
  C7, as the code has it: \<^verbatim>\<open>main\<close> exits with code 127 exactly when both the
  \<^verbatim>\<open>text\<close> and the \<^verbatim>\<open>env\<close> flag are empty or a positional argument is left over.
  It then has written one message to the error stream, and has not gone on to build the
  routes and listen.  Otherwise it writes nothing and goes on to listen, with the text
  value and kind \<^verbatim>\<open>text\<close> when the \<^verbatim>\<open>text\<close> flag is non-empty, and with the
  \<^verbatim>\<open>env\<close> value and kind \<^verbatim>\<open>env\<close> when it is empty.
\<close>

theorem main_startup_validation:
  "(fst (main_startup fl w) = Exit 127) =
     ((textFlag fl = [] \<and> envFlag fl = []) \<or> args fl \<noteq> [])
   \<and> (fst (main_startup fl w) = Exit 127 \<longrightarrow>
        snd (main_startup fl w) =
          w\<lparr>stderr := stderr w @
               [(if textFlag fl = [] \<and> envFlag fl = []
                 then ''Missing -text or -env option!'' else ''Too many arguments!'')
                @ [newline]]\<rparr>)
   \<and> (fst (main_startup fl w) \<noteq> Exit 127 \<longrightarrow>
        main_startup fl w =
          (Listen (listenFlag fl)
             (if textFlag fl \<noteq> [] then textFlag fl else envFlag fl)
             (if textFlag fl \<noteq> [] then ''text'' else ''env''), w))"
  by (simp add: main_startup_def file_Fprintln_def file_Write_def)

theorem main_startup_validation_witness:
  "fst (main_startup \<lparr>listenFlag = '':5678'', textFlag = [], envFlag = [], args = []\<rparr>
      exampleWorld) = Exit 127
   \<and> snd (main_startup \<lparr>listenFlag = '':5678'', textFlag = [], envFlag = [], args = []\<rparr>
      exampleWorld) =
      exampleWorld\<lparr>stderr := [''Missing -text or -env option!'' @ [newline]]\<rparr>
   \<and> snd (main_startup \<lparr>listenFlag = '':5678'', textFlag = ''hi'', envFlag = [], args = [''x'']\<rparr>
      exampleWorld) =
      exampleWorld\<lparr>stderr := [''Too many arguments!'' @ [newline]]\<rparr>
   \<and> fst (main_startup \<lparr>listenFlag = '':5678'', textFlag = ''hi'', envFlag = [], args = []\<rparr>
      exampleWorld) \<noteq> Exit 127
   \<and> main_startup \<lparr>listenFlag = '':5678'', textFlag = ''hi'', envFlag = [], args = []\<rparr>
      exampleWorld = (Listen '':5678'' ''hi'' ''text'', exampleWorld)"
proof -
  let ?none = "\<lparr>listenFlag = '':5678'', textFlag = [], envFlag = [], args = []\<rparr>"
  let ?extra = "\<lparr>listenFlag = '':5678'', textFlag = ''hi'', envFlag = [], args = [''x'']\<rparr>"
  let ?good = "\<lparr>listenFlag = '':5678'', textFlag = ''hi'', envFlag = [], args = []\<rparr>"
  note n = main_startup_validation [of ?none exampleWorld]
  note e = main_startup_validation [of ?extra exampleWorld]
  note g = main_startup_validation [of ?good exampleWorld]
  have n1: "fst (main_startup ?none exampleWorld) = Exit 127"
    using n [THEN conjunct1] by simp
  have e1: "fst (main_startup ?extra exampleWorld) = Exit 127"
    using e [THEN conjunct1] by simp
  have g1: "fst (main_startup ?good exampleWorld) \<noteq> Exit 127"
    using g [THEN conjunct1] by simp
  note n2 = n [THEN conjunct2, THEN conjunct1, rule_format, OF n1]
  note e2 = e [THEN conjunct2, THEN conjunct1, rule_format, OF e1]
  note g2 = g [THEN conjunct2, THEN conjunct2, rule_format, OF g1]
  show ?thesis
    using n1 n2 e2 g1 g2 by (simp add: exampleWorld_def)
qed

text \<open>
  C7 as stated asks for exactly one of the two flags: with both flags non-empty and no
  positional argument, \<^verbatim>\<open>main\<close> does not exit with 127 but goes on to listen.
\<close>

theorem both_flags_accepted:
  "main_startup \<lparr>listenFlag = '':5678'', textFlag = ''hi'', envFlag = ''GREETING'', args = []\<rparr>
     exampleWorld = (Listen '':5678'' ''hi'' ''text'', exampleWorld)
   \<and> fst (main_startup
        \<lparr>listenFlag = '':5678'', textFlag = ''hi'', envFlag = ''GREETING'', args = []\<rparr>
        exampleWorld) \<noteq> Exit 127"
  by (simp add: main_startup_def)

text \<open>
  C9, as the code has it: when both the \<^verbatim>\<open>text\<close> and the \<^verbatim>\<open>env\<close> flag are non-empty
  and no positional argument is left over, \<^verbatim>\<open>main\<close> does not exit, writes nothing and
  goes on to listen with the text value and kind \<^verbatim>\<open>text\<close>.
\<close>

theorem text_takes_precedence:
  "textFlag fl \<noteq> [] \<Longrightarrow> envFlag fl \<noteq> [] \<Longrightarrow> args fl = [] \<Longrightarrow>
   main_startup fl w = (Listen (listenFlag fl) (textFlag fl) ''text'', w)"
  by (simp add: main_startup_def)

theorem text_takes_precedence_witness:
  "textFlag \<lparr>listenFlag = '':8080'', textFlag = ''hello'', envFlag = ''HOME'', args = []\<rparr> \<noteq> []
   \<and> envFlag \<lparr>listenFlag = '':8080'', textFlag = ''hello'', envFlag = ''HOME'', args = []\<rparr> \<noteq> []
   \<and> args \<lparr>listenFlag = '':8080'', textFlag = ''hello'', envFlag = ''HOME'', args = []\<rparr> = []
   \<and> main_startup \<lparr>listenFlag = '':8080'', textFlag = ''hello'', envFlag = ''HOME'', args = []\<rparr>
     exampleWorld = (Listen '':8080'' ''hello'' ''text'', exampleWorld)"
  using text_takes_precedence
    [of "\<lparr>listenFlag = '':8080'', textFlag = ''hello'', envFlag = ''HOME'', args = []\<rparr>"
      exampleWorld]
  by simp

text \<open>
  C9 as stated does not exclude positional arguments: with both flags non-empty and one
  positional argument, \<^verbatim>\<open>main\<close> exits with code 127.
\<close>

theorem both_flags_extra_argument_rejected:
  "main_startup
     \<lparr>listenFlag = '':5678'', textFlag = ''hi'', envFlag = ''GREETING'', args = [''extra'']\<rparr>
     exampleWorld =
     (Exit 127, exampleWorld\<lparr>stderr := [''Too many arguments!'' @ [newline]]\<rparr>)"
  by (simp add: main_startup_def file_Fprintln_def file_Write_def exampleWorld_def)

end
